theory Spec2Isabelle
  imports Complex_Main "HOL-Library.Multiset"
begin

section \<open>Embedding of \<open>viroconcom/fitting.py\<close>\<close>

text \<open>
  The module fits distributions to samples. Its numerical collaborators
  (\<open>scipy.stats\<close>, \<open>statsmodels\<close>, \<open>scipy.optimize.curve_fit\<close>) are not part of the
  repository; they enter the embedding as the fields of an environment record, and so do
  the array generators \<open>np.arange\<close> and \<open>np.linspace\<close> of numpy, whose points are rounded
  floats. The finite floats are idealised as reals, with exact \<open>+\<close>, \<open>-\<close>, \<open>*\<close> and \<open>\<le>\<close> in
  the expressions the module itself computes. Python exceptions are values of the type
  \<open>error\<close>: one constructor for each exception class that matters here, an exception of a
  subclass not listed being of the class listed. The ones the source raises itself carry
  their message, the ones the interpreter raises do not (the unbound local names its
  variable).
\<close>

subsection \<open>Exceptions, warnings and the trace of a run\<close>

datatype error =
    ValueError string
  | RuntimeError string
  | NotImplementedError string
  | RecursionError string
  | AttributeError
  | TypeError
  | IndexError
  | UnboundLocalError string

text \<open>
  A float is a real number, or one of the two values that are none and that \<open>np.log\<close> can
  return: \<open>-inf\<close> and \<open>nan\<close>.
\<close>

datatype nonfinite = minus_inf | nan

datatype float_value = Finite real | NonFinite nonfinite

datatype estimator = weibull_min | norm_est | lognorm | KDEUnivariate

text \<open>The two dependency functions \<open>_f1\<close> (power function) and \<open>_f2\<close> (exponential function).\<close>

datatype fitting_function = f1 | f2

text \<open>
  The three \<open>warnings.warn\<close> calls of the module, with the values their messages format:
  the skipped step after a failed fit (step, dimension), the skipped step with too few
  points (minimum, number of points, step, dimension), and the curve fit that did not
  converge (parameter name, dimension, function name).
\<close>

datatype warning =
    NotEnoughDataForStep real "int option"
  | TooFewDataPoints nat nat real "int option"
  | OptimalParametersNotFound string nat "string option"

text \<open>
  What a run does besides computing its result: the calls it makes to the estimators and to
  \<open>curve_fit\<close> (function, x data, y data, \<open>maxfev\<close> when given), and the warnings it
  emits, in order.
\<close>

datatype event =
    MarginalFit estimator "real list"
  | CurveFit "fitting_function option" "real list" "float_value list" "nat option"
  | Warn warning

type_synonym 'a run = "(error + 'a) \<times> event list"

definition returnR :: "'a \<Rightarrow> 'a run" where
  "returnR x = (Inr x, [])"

definition raiseR :: "error \<Rightarrow> 'a run" where
  "raiseR e = (Inl e, [])"

definition bindR :: "'a run \<Rightarrow> ('a \<Rightarrow> 'b run) \<Rightarrow> 'b run" where
  "bindR m f =
     (case m of
        (Inl e, tr) \<Rightarrow> (Inl e, tr)
      | (Inr x, tr) \<Rightarrow> (case f x of (r, tr') \<Rightarrow> (r, tr @ tr')))"

definition liftR :: "error + 'a \<Rightarrow> 'a run" where
  "liftR r = (r, [])"

definition emit :: "event \<Rightarrow> unit run" where
  "emit ev = (Inr (), [ev])"

text \<open>A call to an external routine: the call is recorded, then its outcome is the result.\<close>

definition extern :: "event \<Rightarrow> error + 'a \<Rightarrow> 'a run" where
  "extern ev r = (r, [ev])"

definition bindE :: "error + 'a \<Rightarrow> ('a \<Rightarrow> error + 'b) \<Rightarrow> error + 'b" where
  "bindE m f = (case m of Inl e \<Rightarrow> Inl e | Inr x \<Rightarrow> f x)"

subsection \<open>Python sequences\<close>

text \<open>\<open>xs[i]\<close> on a list or tuple: negative indices count from the end.\<close>

definition py_get :: "'a list \<Rightarrow> int \<Rightarrow> error + 'a" where
  "py_get xs i =
     (if 0 \<le> i \<and> i < int (length xs) then Inr (xs ! nat i)
      else if i < 0 \<and> - int (length xs) \<le> i then Inr (xs ! nat (int (length xs) + i))
      else Inl IndexError)"

text \<open>\<open>obj.append(x)\<close> where \<open>obj\<close> is \<open>None\<close> or a list.\<close>

definition py_append :: "'a list option \<Rightarrow> 'a \<Rightarrow> error + 'a list option" where
  "py_append obj x =
     (case obj of None \<Rightarrow> Inl AttributeError | Some xs \<Rightarrow> Inr (Some (xs @ [x])))"

text \<open>\<open>obj[i]\<close> where \<open>obj\<close> is \<open>None\<close> or a list.\<close>

definition py_subscript :: "'a list option \<Rightarrow> int \<Rightarrow> error + 'a" where
  "py_subscript obj i = (case obj of None \<Rightarrow> Inl TypeError | Some xs \<Rightarrow> py_get xs i)"

text \<open>The text \<open>'{}'\<close> of a format string: the argument between single quotes.\<close>

definition quoted :: "string \<Rightarrow> string" where
  "quoted s = [CHR 0x27] @ s @ [CHR 0x27]"

text \<open>\<open>str(n)\<close> for an integer: its decimal digits, after a minus sign when negative.\<close>

fun str_nat :: "nat \<Rightarrow> string" where
  "str_nat n =
     (if n < 10 then [char_of (48 + n)]
      else str_nat (n div 10) @ [char_of (48 + n mod 10)])"

declare str_nat.simps [simp del]

definition str_int :: "int \<Rightarrow> string" where
  "str_int i = (if i < 0 then CHR ''-'' # str_nat (nat (- i)) else str_nat (nat i))"

text \<open>
  \<open>try: body except E: handler\<close>, where \<open>catches\<close> says which exceptions are an \<open>E\<close>: what
  the body did up to the exception stays in the trace.
\<close>

definition try_except :: "(error \<Rightarrow> bool) \<Rightarrow> 'a run \<Rightarrow> 'a run \<Rightarrow> 'a run" where
  "try_except catches body handler =
     (case body of
        (Inl e, tr) \<Rightarrow>
          if catches e then (case handler of (r, tr') \<Rightarrow> (r, tr @ tr')) else (Inl e, tr)
      | (Inr x, tr) \<Rightarrow> (Inr x, tr))"

fun is_ValueError :: "error \<Rightarrow> bool" where
  "is_ValueError (ValueError msg) = True"
| "is_ValueError e = False"

text \<open>
  \<open>except RuntimeError\<close> also catches the subclasses \<open>NotImplementedError\<close> and
  \<open>RecursionError\<close>.
\<close>

fun is_RuntimeError :: "error \<Rightarrow> bool" where
  "is_RuntimeError (RuntimeError msg) = True"
| "is_RuntimeError (NotImplementedError msg) = True"
| "is_RuntimeError (RecursionError msg) = True"
| "is_RuntimeError e = False"

subsection \<open>Parameters\<close>

text \<open>
  Modelled from the spec: the classes \<open>ConstantParam\<close> and \<open>FunctionParam\<close> of
  \<open>viroconcom/params.py\<close>, which \<open>fitting.py\<close> imports. A parameter value is a constant or a
  function of the covariate (\<open>a + b * x ^ c\<close> for \<open>f1\<close>, \<open>a + b * exp (c * x)\<close> for \<open>f2\<close>),
  evaluated at an optional covariate value that a constant ignores. \<open>ConstantNonFinite\<close> is
  \<open>ConstantParam\<close> of \<open>-inf\<close> or \<open>nan\<close>. The module itself only ever evaluates constants; a
  function evaluated without a covariate, or with a function name other than \<open>f1\<close> and
  \<open>f2\<close>, is an error here.
\<close>

datatype param =
    ConstantParam real
  | ConstantNonFinite nonfinite
  | FunctionParam real real real "string option"

text \<open>\<open>ConstantParam(x)\<close> for a float \<open>x\<close>.\<close>

fun constant_param :: "float_value \<Rightarrow> param" where
  "constant_param (Finite x) = ConstantParam x"
| "constant_param (NonFinite v) = ConstantNonFinite v"

fun param_call :: "param \<Rightarrow> real option \<Rightarrow> error + float_value" where
  "param_call (ConstantParam c) x = Inr (Finite c)"
| "param_call (ConstantNonFinite v) x = Inr (NonFinite v)"
| "param_call (FunctionParam a b c fn) None = Inl TypeError"
| "param_call (FunctionParam a b c fn) (Some x) =
     (if fn = Some ''f1'' then Inr (Finite (a + b * x powr c))
      else if fn = Some ''f2'' then Inr (Finite (a + b * exp (c * x)))
      else Inl TypeError)"

text \<open>
  \<open>np.log(x)\<close>: the logarithm of a positive number, \<open>-inf\<close> for 0 and \<open>nan\<close> for a negative
  number, for \<open>-inf\<close> and for \<open>nan\<close>. It raises nothing.
\<close>

fun np_log :: "float_value \<Rightarrow> float_value" where
  "np_log (Finite x) =
     (if 0 < x then Finite (ln x) else if x = 0 then NonFinite minus_inf else NonFinite nan)"
| "np_log (NonFinite v) = NonFinite nan"

subsection \<open>\<open>BasicFit\<close> and \<open>FitInspectionData\<close>\<close>

text \<open>
  The attribute \<open>samples\<close> of \<open>BasicFit\<close> is the field \<open>raw_samples\<close>, since \<open>samples\<close>
  names the argument of the fitting functions below.
\<close>

record BasicFit =
  shape :: param
  loc :: param
  scale :: param
  raw_samples :: "real list"

text \<open>
  The attributes of \<open>FitInspectionData\<close>. The private lists \<open>_shape_value\<close>,
  \<open>_loc_value\<close>, \<open>_scale_value\<close> always have three entries (shape, loc, scale), each
  \<open>None\<close> or a list; they are the triples \<open>p_shape_value\<close>, \<open>p_loc_value\<close>,
  \<open>p_scale_value\<close>.
\<close>

record FitInspectionData =
  used_number_of_intervals :: "nat option"
  shape_at :: "real list option"
  p_shape_value :: "param list option \<times> param list option \<times> param list option"
  loc_at :: "real list option"
  p_loc_value :: "param list option \<times> param list option \<times> param list option"
  scale_at :: "real list option"
  p_scale_value :: "param list option \<times> param list option \<times> param list option"
  shape_samples :: "real list list option"
  loc_samples :: "real list list option"
  scale_samples :: "real list list option"

definition FitInspectionData_init :: FitInspectionData where
  "FitInspectionData_init =
     \<lparr> used_number_of_intervals = None,
       shape_at = None, p_shape_value = (None, None, None),
       loc_at = None, p_loc_value = (None, None, None),
       scale_at = None, p_scale_value = (None, None, None),
       shape_samples = None, loc_samples = None, scale_samples = None \<rparr>"

text \<open>
  The four appends of one branch of \<open>append_basic_fit\<close>, in the order of the source: to
  the three lists of the value triple, then to the list of samples.
\<close>

definition append_fit ::
  "param list option \<times> param list option \<times> param list option \<Rightarrow> real list list option \<Rightarrow>
   BasicFit \<Rightarrow>
   error + (param list option \<times> param list option \<times> param list option) \<times> real list list option"
where
  "append_fit value smp basic_fit =
     (case value of (v0, v1, v2) \<Rightarrow>
        bindE (py_append v0 (shape basic_fit)) (\<lambda>v0'.
        bindE (py_append v1 (loc basic_fit)) (\<lambda>v1'.
        bindE (py_append v2 (scale basic_fit)) (\<lambda>v2'.
        bindE (py_append smp (raw_samples basic_fit)) (\<lambda>smp'.
        Inr ((v0', v1', v2'), smp'))))))"

definition append_basic_fit ::
  "FitInspectionData \<Rightarrow> string \<Rightarrow> BasicFit \<Rightarrow> error + FitInspectionData" where
  "append_basic_fit self param basic_fit =
     (if param = ''shape'' then
        bindE (append_fit (p_shape_value self) (shape_samples self) basic_fit) (\<lambda>(v, s).
        Inr (self\<lparr>p_shape_value := v, shape_samples := s\<rparr>))
      else if param = ''loc'' then
        bindE (append_fit (p_loc_value self) (loc_samples self) basic_fit) (\<lambda>(v, s).
        Inr (self\<lparr>p_loc_value := v, loc_samples := s\<rparr>))
      else if param = ''scale'' then
        bindE (append_fit (p_scale_value self) (scale_samples self) basic_fit) (\<lambda>(v, s).
        Inr (self\<lparr>p_scale_value := v, scale_samples := s\<rparr>))
      else Inl (ValueError (''Parameter '' @ quoted param @ '' is unknown.'')))"

definition get_fit ::
  "param list option \<times> param list option \<times> param list option \<Rightarrow> real list list option \<Rightarrow>
   int \<Rightarrow> error + BasicFit" where
  "get_fit value smp index =
     (case value of (v0, v1, v2) \<Rightarrow>
        bindE (py_subscript v0 index) (\<lambda>a.
        bindE (py_subscript v1 index) (\<lambda>b.
        bindE (py_subscript v2 index) (\<lambda>c.
        bindE (py_subscript smp index) (\<lambda>d.
        Inr \<lparr>shape = a, loc = b, scale = c, raw_samples = d\<rparr>)))))"

definition get_basic_fit :: "FitInspectionData \<Rightarrow> string \<Rightarrow> int \<Rightarrow> error + BasicFit" where
  "get_basic_fit self param index =
     (if param = ''shape'' then get_fit (p_shape_value self) (shape_samples self) index
      else if param = ''loc'' then get_fit (p_loc_value self) (loc_samples self) index
      else if param = ''scale'' then get_fit (p_scale_value self) (scale_samples self) index
      else Inl (ValueError (''Parameter '' @ quoted param @ '' is unknown.'')))"

subsection \<open>The external routines\<close>

text \<open>
  The estimators and the least-squares solver the module calls; each returns its result or
  raises. \<open>weibull_min_fit\<close> is \<open>sts.weibull_min.fit(sample)\<close> (shape, loc, scale),
  \<open>norm_fit\<close> is \<open>sts.norm.fit(sample)\<close> (loc, scale), \<open>lognorm_fit\<close> is
  \<open>sts.lognorm.fit(sample, floc=0)\<close> (shape, loc, scale), \<open>kde_fit\<close> is the kernel density
  estimate fitted with \<open>gridsize=2000\<close> (its \<open>cdf\<close> and \<open>icdf\<close>), and \<open>curve_fit\<close> is
  \<open>scipy.optimize.curve_fit(f, xdata, ydata, bounds=_bounds)\<close> with \<open>maxfev\<close> when given
  (the optimal parameters; the covariance is not used). \<open>np_arange start stop step\<close> is
  \<open>np.arange(start, stop, step)\<close>, and \<open>np_linspace stop num\<close> is
  \<open>np.linspace(0, stop, num=num, endpoint=False, retstep=True)\<close> (the points and the step).
\<close>

fun apply_function :: "fitting_function \<Rightarrow> real \<Rightarrow> real \<Rightarrow> real \<Rightarrow> real \<Rightarrow> real" where
  "apply_function f2 x a b c = a + b * exp (c * x)"
| "apply_function f1 x a b c = a + b * x powr c"

record env =
  weibull_min_fit :: "real list \<Rightarrow> error + real \<times> real \<times> real"
  norm_fit :: "real list \<Rightarrow> error + real \<times> real"
  lognorm_fit :: "real list \<Rightarrow> error + real \<times> real \<times> real"
  kde_fit :: "real list \<Rightarrow> error + real list \<times> real list"
  curve_fit ::
    "fitting_function option \<Rightarrow> real list \<Rightarrow> float_value list \<Rightarrow> nat option \<Rightarrow>
     error + real \<times> real \<times> real"
  np_arange :: "real \<Rightarrow> real \<Rightarrow> real \<Rightarrow> real list"
  np_linspace :: "real \<Rightarrow> int \<Rightarrow> error + real list \<times> real"

subsection \<open>\<open>Fit._fit_distribution\<close> and \<open>Fit._get_function\<close>\<close>

text \<open>
  What \<open>_fit_distribution\<close> returns: three constant parameters, or the pair
  \<open>(dens.cdf, dens.icdf)\<close> of the kernel density.
\<close>

datatype fit_result =
    Params param param param
  | KdePair "real list" "real list"

text \<open>
  The chain of comparisons of the source. \<open>name[:-2]\<close> is the name without its last two
  characters. A name that matches no branch reaches the \<open>return\<close> with \<open>params\<close> unbound.
\<close>

definition fit_distribution :: "env \<Rightarrow> real list \<Rightarrow> string \<Rightarrow> fit_result run" where
  "fit_distribution env sample name =
     (if name = ''Weibull'' then
        bindR (extern (MarginalFit weibull_min sample) (weibull_min_fit env sample)) (\<lambda>(p0, p1, p2).
        returnR (Params (ConstantParam p0) (ConstantParam p1) (ConstantParam p2)))
      else if name = ''Normal'' then
        bindR (extern (MarginalFit norm_est sample) (norm_fit env sample)) (\<lambda>(p1, p2).
        returnR (Params (ConstantParam 0) (ConstantParam p1) (ConstantParam p2)))
      else if take (length name - 2) name = ''Lognormal'' then
        bindR (extern (MarginalFit lognorm sample) (lognorm_fit env sample)) (\<lambda>(p0, p1, p2).
        returnR (Params (ConstantParam p0) (ConstantParam p1) (ConstantParam p2)))
      else if name = ''KernelDensity'' then
        bindR (extern (MarginalFit KDEUnivariate sample) (kde_fit env sample)) (\<lambda>(cdf, icdf).
        returnR (KdePair cdf icdf))
      else raiseR (UnboundLocalError ''params''))"

definition get_function :: "string option \<Rightarrow> error + fitting_function option" where
  "get_function function_name =
     (case function_name of
        None \<Rightarrow> Inr None
      | Some nm \<Rightarrow>
          if nm = ''f1'' then Inr (Some f1)
          else if nm = ''f2'' then Inr (Some f2)
          else Inl (ValueError (''Function '' @ quoted nm @ '' is unknown.'')))"

subsection \<open>\<open>Fit._append_params\<close>\<close>

text \<open>
  \<open>BasicFit(*current_params, samples)\<close>: the constructor takes four arguments, so the pair
  of the kernel density is a \<open>TypeError\<close>. After it, \<open>current_params\<close> is a tuple of three
  parameters, read by index.
\<close>

definition new_BasicFit :: "fit_result \<Rightarrow> real list \<Rightarrow> error + BasicFit \<times> param list" where
  "new_BasicFit current_params smp =
     (case current_params of
        Params a b c \<Rightarrow> Inr (\<lparr>shape = a, loc = b, scale = c, raw_samples = smp\<rparr>, [a, b, c])
      | KdePair cdf icdf \<Rightarrow> Inl TypeError)"

text \<open>
  The loop \<open>for i in range(index, len(dependency))\<close> of \<open>_append_params\<close>; \<open>is\<close> is what is
  left of the range, so \<open>dependency[i]\<close> and \<open>dependency[index]\<close> are in range. The lists
  \<open>param_values\<close> and \<open>current_params\<close> have three entries, and an \<open>i\<close> beyond them is an
  \<open>IndexError\<close>.
\<close>

fun append_params_loop ::
  "param list list \<Rightarrow> int option list \<Rightarrow> nat \<Rightarrow> param list \<Rightarrow> nat list \<Rightarrow> error + param list list"
where
  "append_params_loop param_values dependency index current_params [] = Inr param_values"
| "append_params_loop param_values dependency index current_params (i # is) =
     (if dependency ! i \<noteq> None \<and> dependency ! i = dependency ! index then
        bindE (py_get param_values (int i)) (\<lambda>column.
        bindE (py_get current_params (int i)) (\<lambda>p.
        append_params_loop (param_values[i := column @ [p]]) dependency index current_params is))
      else append_params_loop param_values dependency index current_params is)"

definition append_params ::
  "env \<Rightarrow> string \<Rightarrow> param list list \<Rightarrow> int option list \<Rightarrow> nat \<Rightarrow> real list \<Rightarrow>
   (BasicFit \<times> param list list) run" where
  "append_params env name param_values dependency index fitting_values =
     bindR (fit_distribution env fitting_values name) (\<lambda>current_params.
     bindR (liftR (new_BasicFit current_params fitting_values)) (\<lambda>(basic_fit, ps).
     bindR (liftR (append_params_loop param_values dependency index ps
                     [index ..< length dependency])) (\<lambda>param_values'.
     returnR (basic_fit, param_values'))))"

subsection \<open>\<open>Fit._get_fitting_values\<close>\<close>

definition MIN_DATA_POINTS_FOR_FIT :: nat where
  "MIN_DATA_POINTS_FOR_FIT = 10"

text \<open>\<open>samples[dependency[index]]\<close>: the values of the dimension the parameter depends on.\<close>

definition covariate :: "real list list \<Rightarrow> int option list \<Rightarrow> nat \<Rightarrow> error + real list" where
  "covariate samples dependency index =
     bindE (py_get dependency (int index)) (\<lambda>d.
       case d of None \<Rightarrow> Inl TypeError | Some k \<Rightarrow> py_get samples k)"

definition py_max :: "real list \<Rightarrow> error + real" where
  "py_max xs =
     (if xs = [] then Inl (ValueError ''max() arg is an empty sequence'') else Inr (Max (set xs)))"

text \<open>
  What the two generators return when no float operation in them rounds, as for the steps
  and bounds of the examples below. \<open>np.linspace(0, stop, num=num, endpoint=False,
  retstep=True)\<close>: the points \<open>k * step\<close> for \<open>k < num\<close>, and \<open>step = stop / num\<close>; a negative
  \<open>num\<close> is a \<open>ValueError\<close>, and \<open>num\<close> is never 0 here.
\<close>

definition exact_linspace :: "real \<Rightarrow> int \<Rightarrow> error + real list \<times> real" where
  "exact_linspace stop num =
     (if num < 0 then
        Inl (ValueError (''Number of samples, '' @ str_int num @ '', must be non-negative.''))
      else
        let step = stop / of_int num
        in Inr (map (\<lambda>k. real k * step) [0 ..< nat num], step))"

text \<open>
  \<open>np.arange(start, stop, step)\<close>: the points \<open>start + k * step\<close> for
  \<open>k < ceil((stop - start) / step)\<close>, none when that is not positive.
\<close>

definition exact_arange :: "real \<Rightarrow> real \<Rightarrow> real \<Rightarrow> real list" where
  "exact_arange start stop step =
     map (\<lambda>k. start + real k * step) [0 ..< nat \<lceil>(stop - start) / step\<rceil>]"

text \<open>\<open>np.delete(arr, i)\<close> for one index \<open>i \<ge> 0\<close>: out of bounds is an \<open>IndexError\<close>.\<close>

definition np_delete :: "'a list \<Rightarrow> nat \<Rightarrow> error + 'a list" where
  "np_delete arr i =
     (if i < length arr then Inr (take i arr @ drop (Suc i) arr) else Inl IndexError)"

text \<open>
  \<open>np.stack((sample, covariate)).T\<close>: the rows \<open>(sample[k], covariate[k])\<close>; the two must
  have the same length.
\<close>

definition np_stack_T :: "real list \<Rightarrow> real list \<Rightarrow> error + (real \<times> real) list" where
  "np_stack_T sample cov =
     (if length sample = length cov then Inr (zip sample cov)
      else Inl (ValueError ''all input arrays must have the same shape''))"

definition no_intervals_error :: error where
  "no_intervals_error =
     RuntimeError (''Either the parameters number_of_intervals or bin_width has to be specified, ''
       @ ''otherwise the intervals are not specified. Exiting.'')"

text \<open>
  The first \<open>if\<close> of the function: the interval centers and the interval width. A count or
  a width that is \<open>None\<close> or 0 is false.
\<close>

definition intervals_by_width ::
  "env \<Rightarrow> real list list \<Rightarrow> int option list \<Rightarrow> nat \<Rightarrow> real option \<Rightarrow>
   error + real list \<times> real" where
  "intervals_by_width env samples dependency index bin_width =
     (case bin_width of
        None \<Rightarrow> Inl no_intervals_error
      | Some interval_width \<Rightarrow>
          if interval_width = 0 then Inl no_intervals_error
          else
            bindE (covariate samples dependency index) (\<lambda>cov.
            bindE (py_max cov) (\<lambda>m.
            Inr (np_arange env (0.5 * interval_width) m interval_width, interval_width))))"

definition compute_intervals ::
  "env \<Rightarrow> real list list \<Rightarrow> int option list \<Rightarrow> nat \<Rightarrow> int option \<Rightarrow> real option \<Rightarrow>
   error + real list \<times> real" where
  "compute_intervals env samples dependency index number_of_intervals bin_width =
     (case number_of_intervals of
        None \<Rightarrow> intervals_by_width env samples dependency index bin_width
      | Some num \<Rightarrow>
          if num = 0 then intervals_by_width env samples dependency index bin_width
          else
            bindE (covariate samples dependency index) (\<lambda>cov.
            bindE (py_max cov) (\<lambda>m.
            bindE (np_linspace env m num) (\<lambda>(interval_centers, interval_width).
            Inr (map (\<lambda>c. c + 0.5 * interval_width) interval_centers, interval_width)))))"

text \<open>
  The mask of one step over the rows sorted by covariate, and the sample values it selects.
  \<open>np.argsort\<close> leaves the order of rows with equal covariate open; the embedding keeps
  their input order.
\<close>

definition interval_mask :: "real \<Rightarrow> real \<Rightarrow> real \<Rightarrow> bool" where
  "interval_mask step interval_width x \<longleftrightarrow>
     x \<ge> step - 0.5 * interval_width \<and> x < step + 0.5 * interval_width"

definition select_fitting_values :: "(real \<times> real) list \<Rightarrow> real \<Rightarrow> real \<Rightarrow> real list" where
  "select_fitting_values sorted_samples step interval_width =
     map fst (filter (\<lambda>row. interval_mask step interval_width (snd row)) sorted_samples)"

text \<open>
  The local variables the loop over the steps updates: \<open>interval_centers\<close>, \<open>dist_values\<close>,
  \<open>param_values\<close>, \<open>multiple_basic_fit\<close>.
\<close>

type_synonym partition = "real list \<times> real list list \<times> param list list \<times> BasicFit list"

text \<open>
  One pass of \<open>for i, step in enumerate(interval_centers)\<close>. The loop runs over the array
  as it was when the loop started; \<open>np.delete\<close> is applied to the array the name is bound
  to now, with the index \<open>i\<close> of the step in the first one.
\<close>

definition interval_step ::
  "env \<Rightarrow> string \<Rightarrow> int option list \<Rightarrow> nat \<Rightarrow> real \<Rightarrow> (real \<times> real) list \<Rightarrow>
   nat \<times> real \<Rightarrow> partition \<Rightarrow> partition run" where
  "interval_step env name dependency index interval_width sorted_samples i_step vars =
     (case i_step of (i, step) \<Rightarrow>
      case vars of (interval_centers, dist_values, param_values, multiple_basic_fit) \<Rightarrow>
        let fitting_values = select_fitting_values sorted_samples step interval_width in
        if length fitting_values \<ge> MIN_DATA_POINTS_FOR_FIT then
          try_except is_ValueError
            (bindR (append_params env name param_values dependency index fitting_values)
               (\<lambda>(basic_fit, param_values').
             returnR (interval_centers, dist_values @ [fitting_values], param_values',
                      multiple_basic_fit @ [basic_fit])))
            (bindR (liftR (np_delete interval_centers i)) (\<lambda>interval_centers'.
             bindR (emit (Warn (NotEnoughDataForStep step (dependency ! index)))) (\<lambda>_.
             returnR (interval_centers', dist_values, param_values, multiple_basic_fit))))
        else
          bindR (liftR (np_delete interval_centers i)) (\<lambda>interval_centers'.
          bindR (emit (Warn (TooFewDataPoints MIN_DATA_POINTS_FOR_FIT (length fitting_values)
                               step (dependency ! index)))) (\<lambda>_.
          returnR (interval_centers', dist_values, param_values, multiple_basic_fit))))"

fun interval_loop ::
  "env \<Rightarrow> string \<Rightarrow> int option list \<Rightarrow> nat \<Rightarrow> real \<Rightarrow> (real \<times> real) list \<Rightarrow>
   (nat \<times> real) list \<Rightarrow> partition \<Rightarrow> partition run" where
  "interval_loop env name dependency index interval_width sorted_samples [] vars = returnR vars"
| "interval_loop env name dependency index interval_width sorted_samples (i_step # rest) vars =
     bindR (interval_step env name dependency index interval_width sorted_samples i_step vars)
       (\<lambda>vars'. interval_loop env name dependency index interval_width sorted_samples rest vars')"

definition too_few_intervals_error :: "nat \<Rightarrow> error" where
  "too_few_intervals_error n =
     RuntimeError (''Your settings resulted in '' @ str_nat n @ '' intervals. However, ''
       @ ''at least 3 intervals are required. Consider changing the interval width setting.'')"

definition get_fitting_values ::
  "env \<Rightarrow> real list \<Rightarrow> real list list \<Rightarrow> string \<Rightarrow> int option list \<Rightarrow> nat \<Rightarrow>
   int option \<Rightarrow> real option \<Rightarrow> partition run" where
  "get_fitting_values env sample samples name dependency index number_of_intervals bin_width =
     bindR (liftR (compute_intervals env samples dependency index number_of_intervals
                     bin_width))
       (\<lambda>(interval_centers, interval_width).
     bindR (liftR (covariate samples dependency index)) (\<lambda>cov.
     bindR (liftR (np_stack_T sample cov)) (\<lambda>rows.
     bindR (interval_loop env name dependency index interval_width (sort_key snd rows)
              (enumerate 0 interval_centers) (interval_centers, [], [[], [], []], []))
       (\<lambda>(interval_centers', dist_values, param_values, multiple_basic_fit).
     if length interval_centers' < 3 then raiseR (too_few_intervals_error (length interval_centers'))
     else returnR (interval_centers', dist_values, param_values, multiple_basic_fit)))))"

subsection \<open>\<open>Fit._get_distribution\<close>\<close>

text \<open>
  Modelled from the spec: the distribution classes of \<open>viroconcom/distributions.py\<close>, which
  \<open>fitting.py\<close> imports and only constructs. A fitted distribution is its family with the
  arguments of the constructor call: the list \<open>params\<close> for \<open>*params\<close>, the keywords
  \<open>sigma\<close> and \<open>mu\<close>, or the pair of the kernel density. The joint distribution is the list
  of the distributions and the list of their dependencies.
\<close>

datatype distribution =
    WeibullDistribution "param option list"
  | LognormalDistribution "param option list"
  | LognormalDistribution_sigma_mu "param option" "param option"
  | NormalDistribution "param option list"
  | KernelDensityDistribution fit_result

record MultivariateDistribution =
  distributions :: "distribution option list"
  dependencies :: "int option list list"

text \<open>
  The objects that stand at the third and fourth place of the tuple \<open>_get_distribution\<close>
  returns: a \<open>FitInspectionData\<close>, or lists of \<open>None\<close>, integers, floats and lists.
\<close>

datatype pyobj =
    PyNone
  | PyInt int
  | PyFloat real
  | PyList "pyobj list"
  | PyFitInspectionData FitInspectionData

text \<open>
  A distribution description: the keys of the dictionary, with \<open>None\<close> for a key that is
  absent. A name, a dependency or a list of functions that is present is not \<open>None\<close>; for
  the other keys \<open>dict.get\<close> makes no difference between an absent key and \<open>None\<close>.
\<close>

record dist_description =
  k_name :: "string option"
  k_dependency :: "int option list option"
  k_functions :: "string option list option"
  k_number_of_intervals :: "int option"
  k_width_of_intervals :: "real option"
  k_list_number_of_intervals :: "int option list option"
  k_list_width_of_intervals :: "real option list option"
  k_used_number_of_intervals :: "pyobj option"

text \<open>\<open>xs[i] = v\<close> on a list.\<close>

definition py_set :: "'a list \<Rightarrow> int \<Rightarrow> 'a \<Rightarrow> error + 'a list" where
  "py_set xs i v =
     (if 0 \<le> i \<and> i < int (length xs) then Inr (xs[nat i := v])
      else if i < 0 \<and> - int (length xs) \<le> i then Inr (xs[nat (int (length xs) + i) := v])
      else Inl IndexError)"

text \<open>The chain \<open>if i == 0 ... elif i == 1 ... elif i == 2\<close> around \<open>append_basic_fit\<close>.\<close>

definition append_by_index :: "FitInspectionData \<Rightarrow> nat \<Rightarrow> BasicFit \<Rightarrow> error + FitInspectionData" where
  "append_by_index fit_inspection_data i basic_fit =
     (if i = 0 then append_basic_fit fit_inspection_data ''shape'' basic_fit
      else if i = 1 then append_basic_fit fit_inspection_data ''loc'' basic_fit
      else if i = 2 then append_basic_fit fit_inspection_data ''scale'' basic_fit
      else Inr fit_inspection_data)"

text \<open>
  The parameter an independent slot \<open>i\<close> gets (lines 725 to 728): the fitted constant, and
  for the scale of \<open>Lognormal_2\<close> the constant \<open>np.log(current_params[i](0))\<close>.
\<close>

definition independent_param :: "string \<Rightarrow> nat \<Rightarrow> param list \<Rightarrow> error + param" where
  "independent_param name i current_params =
     (if i = 2 \<and> name = ''Lognormal_2'' then
        bindE (py_get current_params (int i)) (\<lambda>p.
        bindE (param_call p (Some 0)) (\<lambda>v.
        Inr (constant_param (np_log v))))
      else py_get current_params (int i))"

text \<open>
  The loop \<open>for i in range(index, len(functions))\<close> of an independent slot; \<open>is\<close> is what is
  left of the range.
\<close>

fun independent_loop ::
  "string \<Rightarrow> int option list \<Rightarrow> param list \<Rightarrow> BasicFit \<Rightarrow> nat list \<Rightarrow>
   param option list \<times> FitInspectionData \<Rightarrow> error + param option list \<times> FitInspectionData"
where
  "independent_loop name dependency current_params basic_fit [] vars = Inr vars"
| "independent_loop name dependency current_params basic_fit (i # is) vars =
     (case vars of (params, fit_inspection_data) \<Rightarrow>
        bindE (py_get dependency (int i)) (\<lambda>d.
          if d = None then
            bindE (append_by_index fit_inspection_data i basic_fit) (\<lambda>fit_inspection_data'.
            bindE (independent_param name i current_params) (\<lambda>p.
            bindE (py_set params (int i) (Some p)) (\<lambda>params'.
            independent_loop name dependency current_params basic_fit is
              (params', fit_inspection_data'))))
          else independent_loop name dependency current_params basic_fit is vars))"

text \<open>\<open>for basic_fit in multiple_basic_fit\<close>: the fits of a dependent slot are appended in order.\<close>

fun append_all :: "FitInspectionData \<Rightarrow> nat \<Rightarrow> BasicFit list \<Rightarrow> error + FitInspectionData" where
  "append_all fit_inspection_data i [] = Inr fit_inspection_data"
| "append_all fit_inspection_data i (basic_fit # rest) =
     bindE (append_by_index fit_inspection_data i basic_fit) (\<lambda>fit_inspection_data'.
     append_all fit_inspection_data' i rest)"

text \<open>
  The points the dependency function is fitted to (lines 754 to 757): the values of the
  parameters fitted in the intervals, and their logarithms for the scale of \<open>Lognormal_2\<close>.
\<close>

fun eval_all :: "param list \<Rightarrow> error + float_value list" where
  "eval_all [] = Inr []"
| "eval_all (p # ps) =
     bindE (param_call p None) (\<lambda>v. bindE (eval_all ps) (\<lambda>vs. Inr (v # vs)))"

definition fit_points_of :: "string \<Rightarrow> nat \<Rightarrow> param list \<Rightarrow> error + float_value list" where
  "fit_points_of name i column =
     (if i = 2 \<and> name = ''Lognormal_2'' then
        bindE (eval_all column) (\<lambda>vs. Inr (map np_log vs))
      else eval_all column)"

text \<open>
  The name of the parameter in the messages of the curve fit; for an \<open>i\<close> beyond 2 no
  branch binds \<open>param_name\<close>.
\<close>

definition param_name_of :: "string \<Rightarrow> nat \<Rightarrow> error + string" where
  "param_name_of name i =
     (if i = 0 \<and> name = ''Lognormal_2'' then Inr ''sigma''
      else if i = 2 \<and> name = ''Lognormal_2'' then Inr ''mu''
      else if i = 0 then Inr ''shape''
      else if i = 1 then Inr ''loc''
      else if i = 2 then Inr ''scale''
      else Inl (UnboundLocalError ''param_name''))"

definition cannot_fit_curve_error :: "string \<Rightarrow> nat \<Rightarrow> error" where
  "cannot_fit_curve_error param_name dimension =
     RuntimeError (''Can't fit curve for parameter '' @ quoted param_name @ '' in dimension ''
       @ quoted (str_nat dimension) @ ''. Number of iterations exceeded.'')"

text \<open>One call \<open>curve_fit(Fit._get_function(functions[i]), interval_centers, fit_points, ...)\<close>.\<close>

definition call_curve_fit ::
  "env \<Rightarrow> string option \<Rightarrow> real list \<Rightarrow> float_value list \<Rightarrow> nat option \<Rightarrow>
   (real \<times> real \<times> real) run" where
  "call_curve_fit env function_name interval_centers fit_points maxfev =
     bindR (liftR (get_function function_name)) (\<lambda>f.
     extern (CurveFit f interval_centers fit_points maxfev)
       (curve_fit env f interval_centers fit_points maxfev))"

text \<open>The two nested \<open>try\<close> statements of lines 759 to 789; \<open>int(1e6)\<close> is 1000000.\<close>

definition fit_curve ::
  "env \<Rightarrow> string \<Rightarrow> nat \<Rightarrow> nat \<Rightarrow> string option \<Rightarrow> real list \<Rightarrow> float_value list \<Rightarrow>
   (real \<times> real \<times> real) run" where
  "fit_curve env name i dimension function_name interval_centers fit_points =
     try_except is_RuntimeError
       (call_curve_fit env function_name interval_centers fit_points None)
       (bindR (liftR (param_name_of name i)) (\<lambda>param_name.
        bindR (emit (Warn (OptimalParametersNotFound param_name dimension function_name))) (\<lambda>_.
        try_except is_RuntimeError
          (call_curve_fit env function_name interval_centers fit_points (Some 1000000))
          (raiseR (cannot_fit_curve_error param_name dimension)))))"

text \<open>
  The local variables of the loop over the slots: \<open>params\<close>, \<open>used_number_of_intervals\<close>,
  \<open>fit_inspection_data\<close>, and the four results of \<open>_get_fitting_values\<close>, which are unbound
  until a call has returned.
\<close>

type_synonym slot_vars =
  "param option list \<times> nat option list \<times> FitInspectionData \<times> partition option"

text \<open>
  The loop \<open>for i in range(index, len(functions))\<close> of a dependent slot; \<open>is\<close> is what is left
  of the range, so \<open>functions[i]\<close> is in range.
\<close>

fun dependent_loop ::
  "env \<Rightarrow> string \<Rightarrow> nat \<Rightarrow> int option list \<Rightarrow> string option list \<Rightarrow> nat \<Rightarrow> nat list \<Rightarrow>
   slot_vars \<Rightarrow> slot_vars run" where
  "dependent_loop env name dimension dependency functions index [] vars = returnR vars"
| "dependent_loop env name dimension dependency functions index (i # is) vars =
     (case vars of (params, used, fit_inspection_data, part) \<Rightarrow>
        bindR (liftR (py_get dependency (int i))) (\<lambda>d.
          if d \<noteq> None \<and> d = dependency ! index then
            bindR (liftR (case part of
                            None \<Rightarrow> Inl (UnboundLocalError ''multiple_basic_fit'')
                          | Some p \<Rightarrow> Inr p))
              (\<lambda>(interval_centers, dist_values, param_values, multiple_basic_fit).
            bindR (liftR (append_all fit_inspection_data i multiple_basic_fit))
              (\<lambda>fit_inspection_data'.
            bindR (liftR (py_set used (int i) (Some (length interval_centers)))) (\<lambda>used'.
            bindR (liftR (bindE (py_get param_values (int i)) (fit_points_of name i)))
              (\<lambda>fit_points.
            bindR (fit_curve env name i dimension (functions ! i) interval_centers fit_points)
              (\<lambda>(a, b, c).
            bindR (liftR (py_set params (int i) (Some (FunctionParam a b c (functions ! i)))))
              (\<lambda>params'.
            dependent_loop env name dimension dependency functions index is
              (params', used', fit_inspection_data', part)))))))
          else dependent_loop env name dimension dependency functions index is vars))"

text \<open>
  The \<open>if\<close> and \<open>elif\<close> of lines 731 to 736, without an \<open>else\<close>: when neither the count nor
  the width of the dimension is true, the four variables stay as they are.
\<close>

definition partition_for ::
  "env \<Rightarrow> real list \<Rightarrow> real list list \<Rightarrow> string \<Rightarrow> int option list \<Rightarrow> nat \<Rightarrow>
   int option list option \<Rightarrow> real option list option \<Rightarrow> partition option \<Rightarrow> partition option run"
where
  "partition_for env sample samples name dependency index list_number_of_intervals
     list_width_of_intervals part =
     (case dependency ! index of
        None \<Rightarrow> raiseR TypeError
      | Some k \<Rightarrow>
          bindR (liftR (py_subscript list_number_of_intervals k)) (\<lambda>num.
            if num \<noteq> None \<and> num \<noteq> Some 0 then
              bindR (get_fitting_values env sample samples name dependency index num None)
                (\<lambda>p. returnR (Some p))
            else
              bindR (liftR (py_subscript list_width_of_intervals k)) (\<lambda>width.
                if width \<noteq> None \<and> width \<noteq> Some 0 then
                  bindR (get_fitting_values env sample samples name dependency index None width)
                    (\<lambda>p. returnR (Some p))
                else returnR part)))"

text \<open>The loop \<open>for index in range(len(dependency))\<close>; \<open>rest\<close> is what is left of the range.\<close>

fun slot_loop ::
  "env \<Rightarrow> nat \<Rightarrow> real list \<Rightarrow> real list list \<Rightarrow> string \<Rightarrow> int option list \<Rightarrow>
   string option list \<Rightarrow> int option list option \<Rightarrow> real option list option \<Rightarrow> nat list \<Rightarrow>
   slot_vars \<Rightarrow> slot_vars run" where
  "slot_loop env dimension sample samples name dependency functions list_number_of_intervals
     list_width_of_intervals [] vars = returnR vars"
| "slot_loop env dimension sample samples name dependency functions list_number_of_intervals
     list_width_of_intervals (index # rest) vars =
     (case vars of (params, used, fit_inspection_data, part) \<Rightarrow>
        bindR (liftR (py_get params (int index))) (\<lambda>p.
          if p \<noteq> None then
            slot_loop env dimension sample samples name dependency functions
              list_number_of_intervals list_width_of_intervals rest vars
          else if dependency ! index = None then
            bindR (fit_distribution env sample name) (\<lambda>current_params.
            bindR (liftR (new_BasicFit current_params sample)) (\<lambda>(basic_fit, ps).
            bindR (liftR (independent_loop name dependency ps basic_fit
                            [index ..< length functions] (params, fit_inspection_data)))
              (\<lambda>(params', fit_inspection_data').
            slot_loop env dimension sample samples name dependency functions
              list_number_of_intervals list_width_of_intervals rest
              (params', used, fit_inspection_data', part))))
          else
            bindR (partition_for env sample samples name dependency index
                     list_number_of_intervals list_width_of_intervals part) (\<lambda>part'.
            bindR (dependent_loop env name dimension dependency functions index
                     [index ..< length functions] (params, used, fit_inspection_data, part'))
              (\<lambda>vars'.
            slot_loop env dimension sample samples name dependency functions
              list_number_of_intervals list_width_of_intervals rest vars'))))"

text \<open>The dispatch on the family name of lines 795 to 803; \<open>params\<close> has three entries.\<close>

definition assemble :: "string \<Rightarrow> param option list \<Rightarrow> distribution option" where
  "assemble name params =
     (if name = ''Weibull'' then Some (WeibullDistribution params)
      else if name = ''Lognormal_2'' then
        Some (LognormalDistribution_sigma_mu (params ! 0) (params ! 2))
      else if name = ''Lognormal_1'' then Some (LognormalDistribution params)
      else if name = ''Normal'' then Some (NormalDistribution params)
      else None)"

definition used_as_object :: "nat option list \<Rightarrow> pyobj" where
  "used_as_object used =
     PyList (map (\<lambda>u. case u of None \<Rightarrow> PyNone | Some n \<Rightarrow> PyInt (int n)) used)"

text \<open>
  The tuple \<open>_get_distribution\<close> returns: the distribution, the dependency, and the two
  objects at the third and fourth place.
\<close>

type_synonym dimension_result = "distribution option \<times> int option list \<times> pyobj \<times> pyobj"

definition get_distribution ::
  "env \<Rightarrow> nat \<Rightarrow> real list list \<Rightarrow> dist_description \<Rightarrow> dimension_result run" where
  "get_distribution env dimension samples kwargs =
     bindR (liftR (py_get samples (int dimension))) (\<lambda>sample.
     let name = (case k_name kwargs of None \<Rightarrow> ''Weibull'' | Some n \<Rightarrow> n);
         dependency = (case k_dependency kwargs of None \<Rightarrow> [None, None, None] | Some d \<Rightarrow> d);
         functions = (case k_functions kwargs of
                        None \<Rightarrow> [Some ''polynomial'', Some ''polynomial'', Some ''polynomial'']
                      | Some f \<Rightarrow> f);
         list_number_of_intervals = k_list_number_of_intervals kwargs;
         list_width_of_intervals = k_list_width_of_intervals kwargs;
         fit_inspection_data = FitInspectionData_init
     in
       if name = ''KernelDensity'' then
         if dependency \<noteq> [None, None, None] then
           raiseR (NotImplementedError ''KernelDensity can not be conditional.'')
         else
           bindR (fit_distribution env sample name) (\<lambda>fitted.
           returnR (Some (KernelDensityDistribution fitted), dependency,
                    PyList (replicate 3 (PyList [PyList (map PyFloat sample)])),
                    PyList [PyNone, PyNone, PyNone]))
       else
         bindR (slot_loop env dimension sample samples name dependency functions
                  list_number_of_intervals list_width_of_intervals [0 ..< length dependency]
                  ([None, None, None], [None, None, None], fit_inspection_data, None))
           (\<lambda>(params, used, fit_inspection_data', part).
         returnR (assemble name params, dependency, used_as_object used,
                  PyFitInspectionData fit_inspection_data')))"

subsection \<open>\<open>Fit.__init__\<close>\<close>

record Fit =
  dist_descriptions :: "dist_description list"
  multiple_fit_inspection_data :: "pyobj list"
  mul_var_dist :: MultivariateDistribution

text \<open>
  The first two loops of the constructor: every description gets the list of the interval
  counts and the list of the interval widths of all descriptions.
\<close>

definition broadcast_intervals :: "dist_description list \<Rightarrow> dist_description list" where
  "broadcast_intervals descriptions =
     map (\<lambda>d. d\<lparr>k_list_number_of_intervals := Some (map k_number_of_intervals descriptions),
               k_list_width_of_intervals := Some (map k_width_of_intervals descriptions)\<rparr>)
       descriptions"

text \<open>
  \<open>pool.apply_async\<close>: the task runs, and what it raises is kept with its result until
  \<open>res.get\<close>. The tasks do not communicate; their traces are listed in the order of the
  dimensions.
\<close>

definition apply_async :: "'a run \<Rightarrow> (error + 'a) run" where
  "apply_async task = (Inr (fst task), snd task)"

fun dispatch ::
  "env \<Rightarrow> real list list \<Rightarrow> dist_description list \<Rightarrow> nat list \<Rightarrow>
   (error + dimension_result) list run" where
  "dispatch env samples descriptions [] = returnR []"
| "dispatch env samples descriptions (dimension # rest) =
     bindR (liftR (py_get descriptions (int dimension))) (\<lambda>dist_description.
     bindR (apply_async (get_distribution env dimension samples dist_description)) (\<lambda>res.
     bindR (dispatch env samples descriptions rest) (\<lambda>multiple_results.
     returnR (res # multiple_results))))"

text \<open>\<open>obj[i]\<close> and \<open>obj.used_number_of_intervals\<close> on an object.\<close>

definition obj_subscript :: "pyobj \<Rightarrow> int \<Rightarrow> error + pyobj" where
  "obj_subscript obj i = (case obj of PyList xs \<Rightarrow> py_get xs i | _ \<Rightarrow> Inl TypeError)"

text \<open>
  The loop \<open>for dep_index, dep in enumerate(dependency)\<close> of the constructor. The right-hand
  side of the assignment is evaluated first.
\<close>

fun save_used ::
  "dist_description list \<Rightarrow> pyobj \<Rightarrow> (nat \<times> int option) list \<Rightarrow> error + dist_description list"
where
  "save_used descriptions used [] = Inr descriptions"
| "save_used descriptions used ((dep_index, dep) # rest) =
     (case dep of
        None \<Rightarrow> save_used descriptions used rest
      | Some k \<Rightarrow>
          bindE (obj_subscript used (int dep_index)) (\<lambda>v.
          bindE (py_get descriptions k) (\<lambda>d.
          bindE (py_set descriptions k (d\<lparr>k_used_number_of_intervals := Some v\<rparr>))
            (\<lambda>descriptions'.
          save_used descriptions' used rest))))"

text \<open>
  The loop \<open>for i, res in enumerate(multiple_results)\<close>. The tuple of a result is unpacked
  into \<open>distribution, dependency, fit_inspection_data, used_number_of_intervals\<close>, in this
  order. The variables of the loop are \<open>self.dist_descriptions\<close>, \<open>distributions\<close>,
  \<open>dependencies\<close> and \<open>self.multiple_fit_inspection_data\<close>.
\<close>

fun collect ::
  "(error + dimension_result) list \<Rightarrow>
   dist_description list \<times> distribution option list \<times> int option list list \<times> pyobj list \<Rightarrow>
   error + dist_description list \<times> distribution option list \<times> int option list list \<times> pyobj list"
where
  "collect [] vars = Inr vars"
| "collect (res # rest) vars =
     (case vars of (descriptions, dists, deps, inspection) \<Rightarrow>
        bindE res (\<lambda>(distribution, dependency, fit_inspection_data, used).
        bindE (save_used descriptions used (enumerate 0 dependency)) (\<lambda>descriptions'.
        collect rest (descriptions', dists @ [distribution], deps @ [dependency],
                      inspection @ [fit_inspection_data]))))"

text \<open>
  The loop of lines 451 to 453: an object of the list whose \<open>used_number_of_intervals\<close> is
  \<open>None\<close> or 0 gets 1; reading the attribute of an object that is not a
  \<open>FitInspectionData\<close> is an \<open>AttributeError\<close>.
\<close>

fun default_used :: "pyobj list \<Rightarrow> error + pyobj list" where
  "default_used [] = Inr []"
| "default_used (obj # rest) =
     (case obj of
        PyFitInspectionData f \<Rightarrow>
          bindE (default_used rest) (\<lambda>rest'.
          Inr (PyFitInspectionData
                 (if used_number_of_intervals f = None \<or> used_number_of_intervals f = Some 0
                  then f\<lparr>used_number_of_intervals := Some 1\<rparr> else f) # rest'))
      | _ \<Rightarrow> Inl AttributeError)"

definition Fit_init :: "env \<Rightarrow> real list list \<Rightarrow> dist_description list \<Rightarrow> Fit run" where
  "Fit_init env samples descriptions =
     bindR (dispatch env samples (broadcast_intervals descriptions) [0 ..< length samples])
       (\<lambda>multiple_results.
     bindR (liftR (collect multiple_results (broadcast_intervals descriptions, [], [], [])))
       (\<lambda>(descriptions', dists, deps, inspection).
     bindR (liftR (default_used inspection)) (\<lambda>inspection'.
     returnR \<lparr>dist_descriptions = descriptions',
              multiple_fit_inspection_data = inspection',
              mul_var_dist = \<lparr>distributions = dists, dependencies = deps\<rparr>\<rparr>)))"

subsection \<open>Example inputs\<close>

text \<open>
  Estimators that return the same fit for every sample, generators that do not round, a
  solver that always converges, and one that converges only with \<open>maxfev\<close>.
\<close>

definition example_env :: env where
  "example_env =
     \<lparr> weibull_min_fit = (\<lambda>sample. Inr (1, 0, 2)),
       norm_fit = (\<lambda>sample. Inr (0, 1)),
       lognorm_fit = (\<lambda>sample. Inr (1, 0, 2)),
       kde_fit = (\<lambda>sample. Inr ([], [])),
       curve_fit = (\<lambda>f xdata ydata maxfev. Inr (1, 1, 1)),
       np_arange = exact_arange,
       np_linspace = exact_linspace \<rparr>"


text \<open>The empty dictionary, and the descriptions used in the examples.\<close>

definition empty_description :: dist_description where
  "empty_description =
     \<lparr> k_name = None, k_dependency = None, k_functions = None, k_number_of_intervals = None,
       k_width_of_intervals = None, k_list_number_of_intervals = None,
       k_list_width_of_intervals = None, k_used_number_of_intervals = None \<rparr>"

definition conditional_kernel_density :: dist_description where
  "conditional_kernel_density =
     empty_description\<lparr> k_name := Some ''KernelDensity'',
                        k_dependency := Some [None, Some 0, None] \<rparr>"

text \<open>
  Covariate samples for the interval width 1. \<open>covariate_a\<close>: ten values in each of
  \<open>[0, 1)\<close>, \<open>[1, 2)\<close>, \<open>[2, 3)\<close> and ten values 3.2. \<open>covariate_b\<close>: none in \<open>[0, 1)\<close>, ten in
  each of \<open>[1, 2)\<close> and \<open>[2, 3)\<close>, and the value 3.7. \<open>covariate_c\<close>: ten in each of the first
  three intervals, and the value 3.7. The dependent sample is \<open>ones n\<close>.
\<close>

definition ones :: "nat \<Rightarrow> real list" where
  "ones n = replicate n 1"


definition covariate_b :: "real list" where
  "covariate_b = replicate 10 1.5 @ replicate 10 2.5 @ [3.7]"

definition covariate_c :: "real list" where
  "covariate_c = replicate 10 0.5 @ replicate 10 1.5 @ replicate 10 2.5 @ [3.7]"

text \<open>
  Descriptions of a dimension whose shape, or whose scale, depends on dimension 0 while no
  description gives an interval count or width; and descriptions without dependency.
\<close>

definition missing_intervals_shape :: dist_description where
  "missing_intervals_shape =
     empty_description\<lparr> k_name := Some ''Weibull'',
                        k_dependency := Some [Some 0, None, None],
                        k_functions := Some [Some ''f1'', None, None],
                        k_list_number_of_intervals := Some [None, None],
                        k_list_width_of_intervals := Some [None, None] \<rparr>"

definition missing_intervals_scale :: dist_description where
  "missing_intervals_scale =
     empty_description\<lparr> k_name := Some ''Weibull'',
                        k_dependency := Some [None, None, Some 0],
                        k_functions := Some [None, None, Some ''f1''],
                        k_list_number_of_intervals := Some [None, None],
                        k_list_width_of_intervals := Some [None, None] \<rparr>"


definition lognormal_2_description :: dist_description where
  "lognormal_2_description =
     empty_description\<lparr> k_name := Some ''Lognormal_2'',
                        k_dependency := Some [None, None, None],
                        k_functions := Some [None, None, None] \<rparr>"

definition lognormal_2_dependent_description :: dist_description where
  "lognormal_2_dependent_description =
     empty_description\<lparr> k_name := Some ''Lognormal_2'',
                        k_dependency := Some [Some 0, None, Some 0],
                        k_functions := Some [Some ''f1'', None, Some ''f1''],
                        k_list_number_of_intervals := Some [None, None],
                        k_list_width_of_intervals := Some [Some 1, None] \<rparr>"

definition kernel_density_description :: dist_description where
  "kernel_density_description =
     empty_description\<lparr> k_name := Some ''KernelDensity'',
                        k_dependency := Some [None, None, None] \<rparr>"

definition weibull_description :: dist_description where
  "weibull_description =
     empty_description\<lparr> k_name := Some ''Weibull'',
                        k_dependency := Some [None, None, None],
                        k_functions := Some [None, None, None] \<rparr>"

text \<open>
  A result of a task that, if it is a tuple, has a list at its third place; an object that
  is a list.
\<close>

definition returns_list :: "error + dimension_result \<Rightarrow> bool" where
  "returns_list res \<longleftrightarrow>
     (case res of Inl e \<Rightarrow> True | Inr (d, dep, third, fourth) \<Rightarrow> (case third of PyList xs \<Rightarrow> True | _ \<Rightarrow> False))"

definition is_list :: "pyobj \<Rightarrow> bool" where
  "is_list obj \<longleftrightarrow> (case obj of PyList xs \<Rightarrow> True | _ \<Rightarrow> False)"

section \<open>Properties\<close>

subsection \<open>Helper facts\<close>

lemma bindE_Inr [simp]: "bindE (Inr x) f = f x"
  by (simp add: bindE_def)

lemma bindE_Inl [simp]: "bindE (Inl e) f = Inl e"
  by (simp add: bindE_def)

subsection \<open>Appending to a fresh \<open>FitInspectionData\<close>\<close>

text \<open>
  Claim C2 says that on a freshly constructed \<open>FitInspectionData\<close> the call
  \<open>append_basic_fit(p, b)\<close> succeeds for each of the parameter names \<open>shape\<close>, \<open>loc\<close> and
  \<open>scale\<close>. The constructor binds the value lists and the sample lists to \<open>None\<close>, so the
  first append of each branch raises \<open>AttributeError\<close>: here for the fit with shape 1, loc 0,
  scale 2 and the sample \<open>[1]\<close>.
\<close>

theorem append_basic_fit_fresh_fails:
  "append_basic_fit FitInspectionData_init ''shape''
     \<lparr>shape = ConstantParam 1, loc = ConstantParam 0, scale = ConstantParam 2,
      raw_samples = [1]\<rparr> = Inl AttributeError
   \<and> append_basic_fit FitInspectionData_init ''loc''
     \<lparr>shape = ConstantParam 1, loc = ConstantParam 0, scale = ConstantParam 2,
      raw_samples = [1]\<rparr> = Inl AttributeError
   \<and> append_basic_fit FitInspectionData_init ''scale''
     \<lparr>shape = ConstantParam 1, loc = ConstantParam 0, scale = ConstantParam 2,
      raw_samples = [1]\<rparr> = Inl AttributeError"
  by (simp add: append_basic_fit_def append_fit_def FitInspectionData_init_def py_append_def)

subsection \<open>Membership in an interval\<close>


lemmas run_defs =
  bindR_def returnR_def raiseR_def liftR_def emit_def extern_def try_except_def apply_async_def

subsection \<open>The kernel density cannot be conditional\<close>

text \<open>
  Claim C7: for every sample and every dependency other than \<open>(None, None, None)\<close>, fitting
  a dimension with the family \<open>KernelDensity\<close> fails with the error "KernelDensity can not
  be conditional.", before any marginal fit: the trace of the run is empty, and the result
  does not depend on the samples or the estimators. The dimension is one of the samples, as
  it is for every call the constructor makes.
\<close>

theorem kernel_density_not_conditional:
  assumes "dimension < length samples"
      and "k_name kwargs = Some ''KernelDensity''"
      and "k_dependency kwargs = Some dependency"
      and "dependency \<noteq> [None, None, None]"
  shows "get_distribution env dimension samples kwargs =
           (Inl (NotImplementedError ''KernelDensity can not be conditional.''), [])"
  using assms by (simp add: get_distribution_def py_get_def run_defs)

theorem kernel_density_not_conditional_witness:
  "get_distribution example_env 1 [[1, 2], [3, 4]] conditional_kernel_density =
     (Inl (NotImplementedError ''KernelDensity can not be conditional.''), [])"
  using kernel_density_not_conditional
          [of 1 "[[1, 2], [3, 4]]" conditional_kernel_density "[None, Some 0, None]" example_env]
  by (simp add: conditional_kernel_density_def empty_description_def)

lemmas get_distribution_defs =
  get_distribution_def partition_for_def py_get_def py_set_def py_subscript_def
  fit_distribution_def new_BasicFit_def append_by_index_def append_basic_fit_def append_fit_def
  py_append_def FitInspectionData_init_def independent_param_def assemble_def used_as_object_def

subsection \<open>Family names\<close>

text \<open>
  Claim C6 says that every family name outside \<open>Weibull\<close>, \<open>Normal\<close>, \<open>Lognormal_1\<close>,
  \<open>Lognormal_2\<close>, \<open>KernelDensity\<close> makes the fit fail with a configuration error before any
  fitting result is produced. The name \<open>Lognormal_3\<close> is outside the enumeration, and
  \<open>_fit_distribution\<close> fits a lognormal distribution for it, since the source compares
  \<open>name[:-2]\<close> with \<open>Lognormal\<close>. For the name \<open>Gamma\<close> no branch of \<open>_fit_distribution\<close>
  raises: the run ends at the \<open>return\<close>, with the local \<open>params\<close> unbound.
\<close>

theorem unknown_family_not_rejected:
  "''Lognormal_3'' \<notin> set [''Weibull'', ''Normal'', ''Lognormal_1'', ''Lognormal_2'', ''KernelDensity'']
   \<and> fit_distribution example_env [1, 2] ''Lognormal_3'' =
       (Inr (Params (ConstantParam 1) (ConstantParam 0) (ConstantParam 2)),
        [MarginalFit lognorm [1, 2]])
   \<and> fit_distribution example_env [1, 2] ''Gamma'' = (Inl (UnboundLocalError ''params''), [])"
  by (simp add: fit_distribution_def example_env_def run_defs)

subsection \<open>The scale of \<open>Lognormal_2\<close>\<close>

text \<open>
  The partition of the sample \<open>ones 31\<close> by \<open>covariate_c\<close> with the width 1, for the two
  dependent descriptions: three intervals are fitted, and the interval of the value 3.7 is
  dropped.
\<close>

lemma example_env_lognorm_fit: "lognorm_fit example_env sample = Inr (1, 0, 2)"
  by (simp add: example_env_def)

lemma partition_lognormal_2:
  "get_fitting_values example_env (ones 31) [covariate_c, ones 31] ''Lognormal_2''
     [Some 0, None, Some 0] 0 None (Some 1) =
   (Inr ([1 / 2, 3 / 2, 5 / 2], [ones 10, ones 10, ones 10],
         [[ConstantParam 1, ConstantParam 1, ConstantParam 1], [],
          [ConstantParam 2, ConstantParam 2, ConstantParam 2]],
         [\<lparr>shape = ConstantParam 1, loc = ConstantParam 0, scale = ConstantParam 2,
           raw_samples = ones 10\<rparr>,
          \<lparr>shape = ConstantParam 1, loc = ConstantParam 0, scale = ConstantParam 2,
           raw_samples = ones 10\<rparr>,
          \<lparr>shape = ConstantParam 1, loc = ConstantParam 0, scale = ConstantParam 2,
           raw_samples = ones 10\<rparr>]),
    [MarginalFit lognorm (ones 10), MarginalFit lognorm (ones 10),
     MarginalFit lognorm (ones 10), Warn (TooFewDataPoints 10 1 (7 / 2) (Some 0))])"
  by code_simp

text \<open>
  Claim C9 says that for \<open>Lognormal_2\<close> the scale (mu) is handled in the log domain: an
  independent scale becomes the constant of its logarithm, and for a dependent scale the
  logarithms of the scale values of the intervals go to the curve fit. Both runs end before
  that. Without dependency, the sample is fitted and the first \<open>append_basic_fit\<close> raises
  \<open>AttributeError\<close>, so no parameter is assigned. With sigma and mu depending on dimension
  0, the three intervals are fitted and the first \<open>append_basic_fit\<close> raises, so the trace
  has no curve fit.
\<close>

theorem lognormal_2_scale_not_reached:
  "get_distribution example_env 1 [covariate_c, ones 31] lognormal_2_description =
     (Inl AttributeError, [MarginalFit lognorm (ones 31)])
   \<and> get_distribution example_env 1 [covariate_c, ones 31] lognormal_2_dependent_description =
     (Inl AttributeError,
      [MarginalFit lognorm (ones 10), MarginalFit lognorm (ones 10),
       MarginalFit lognorm (ones 10), Warn (TooFewDataPoints 10 1 (7 / 2) (Some 0))])"
  by (simp add: run_defs get_distribution_defs lognormal_2_description_def
        lognormal_2_dependent_description_def empty_description_def upt_rec
        partition_lognormal_2 example_env_lognorm_fit)

text \<open>
  What lines 725 to 728 and 754 to 757 compute, taken alone: the logarithm of the fitted
  scale, and the logarithms of the scale values of the intervals.
\<close>

lemma eval_all_constants: "eval_all (map ConstantParam vs) = Inr (map Finite vs)"
  by (induction vs) simp_all

lemma lognormal_2_log_blocks:
  "fit_points_of ''Lognormal_2'' 2 (map ConstantParam vs) = Inr (map (\<lambda>v. np_log (Finite v)) vs)
   \<and> independent_param ''Lognormal_2'' 2 [ConstantParam a, ConstantParam b, ConstantParam c]
       = Inr (constant_param (np_log (Finite c)))"
  by (simp add: fit_points_of_def independent_param_def eval_all_constants py_get_def comp_def)

subsection \<open>The retry of the curve fit\<close>



text \<open>
  What lines 759 to 789 do, taken alone, when the first call raises \<open>RuntimeError\<close>: the
  warning, one more call with \<open>maxfev = 1000000\<close>, and the error that names the parameter
  and the dimension when that call raises a \<open>RuntimeError\<close> too.
\<close>

lemma fit_curve_retry_block:
  assumes "get_function function_name = Inr f"
      and "curve_fit env f interval_centers fit_points None = Inl (RuntimeError msg)"
      and "param_name_of name i = Inr param_name"
  shows "snd (fit_curve env name i dimension function_name interval_centers fit_points) =
           [CurveFit f interval_centers fit_points None,
            Warn (OptimalParametersNotFound param_name dimension function_name),
            CurveFit f interval_centers fit_points (Some 1000000)]
         \<and> fst (fit_curve env name i dimension function_name interval_centers fit_points) =
           (case curve_fit env f interval_centers fit_points (Some 1000000) of
              Inl e \<Rightarrow> if is_RuntimeError e then Inl (cannot_fit_curve_error param_name dimension)
                       else Inl e
            | Inr popt \<Rightarrow> Inr popt)"
  using assms
  by (simp add: fit_curve_def call_curve_fit_def run_defs split: sum.splits)

subsection \<open>The number of interval centers\<close>



lemma bindE_eq_Inr: "bindE m f = Inr y \<longleftrightarrow> (\<exists>x. m = Inr x \<and> f x = Inr y)"
  by (cases m) simp_all












subsection \<open>Too few intervals\<close>

text \<open>
  Claim C3 says that whenever fewer than 3 intervals survive, the partition fails with the
  error that cites the number of surviving intervals. For \<open>covariate_b\<close> and the width 1
  the candidate centers are 0.5, 1.5, 2.5 and 3.5; the intervals at 1.5 and 2.5 survive, so
  the claim asks for the error that cites 2. The run drops the interval at 0.5 (index 0),
  fits the two full intervals, and for the interval at 3.5 calls \<open>np.delete\<close> with its index
  3 on the array of the three centers left: an \<open>IndexError\<close>.
\<close>

theorem too_few_intervals_index_error:
  "get_fitting_values example_env (ones 21) [covariate_b, ones 21] ''Weibull''
     [None, None, Some 0] 2 None (Some 1) =
   (Inl IndexError,
    [Warn (TooFewDataPoints 10 0 (1 / 2) (Some 0)),
     MarginalFit weibull_min (ones 10), MarginalFit weibull_min (ones 10)])"
  by code_simp

subsection \<open>Neither interval count nor interval width\<close>

text \<open>
  Claim C8 says that a description with a dependent parameter and neither an interval count
  nor an interval width for the referenced dimension fails with a configuration error
  before any fitting work. \<open>_get_fitting_values\<close> raises that error when it is called with
  neither (third equation), but \<open>_get_distribution\<close> calls it only when a count or a width
  is true. With the shape depending on dimension 0 the run ends at the unbound local
  \<open>multiple_basic_fit\<close>; with the scale depending on dimension 0 the whole sample is fitted
  first, for the independent shape.
\<close>

theorem missing_intervals_not_checked:
  "get_distribution example_env 1 [[1, 2], [3, 4]] missing_intervals_shape =
     (Inl (UnboundLocalError ''multiple_basic_fit''), [])
   \<and> get_distribution example_env 1 [[1, 2], [3, 4]] missing_intervals_scale =
     (Inl AttributeError, [MarginalFit weibull_min [3, 4]])
   \<and> get_fitting_values example_env [3, 4] [[1, 2], [3, 4]] ''Weibull'' [Some 0, None, None] 0
       None None = (Inl no_intervals_error, [])"
  by (simp add: run_defs get_distribution_defs missing_intervals_shape_def
        missing_intervals_scale_def empty_description_def example_env_def upt_rec
        get_fitting_values_def compute_intervals_def intervals_by_width_def)

subsection \<open>The constructor\<close>

text \<open>
  Claim C1 says that a successful call of the constructor yields one fit inspection record
  per dimension, with \<open>used_number_of_intervals\<close> equal to 1 for a dimension that is no
  dependency target. For one dimension without dependency the constructor raises
  \<open>AttributeError\<close>, with the family \<open>KernelDensity\<close> and with the family \<open>Weibull\<close>.
\<close>

theorem constructor_fails:
  "Fit_init example_env [[1, 2]] [kernel_density_description] =
     (Inl AttributeError, [MarginalFit KDEUnivariate [1, 2]])
   \<and> Fit_init example_env [[1, 2]] [weibull_description] =
     (Inl AttributeError, [MarginalFit weibull_min [1, 2]])"
  by (simp add: Fit_init_def broadcast_intervals_def obj_subscript_def enumerate_eq_zip run_defs
        get_distribution_defs kernel_density_description_def weibull_description_def
        empty_description_def example_env_def upt_rec)

text \<open>
  The third place of the tuple a task returns holds a list, and the constructor binds it to
  \<open>fit_inspection_data\<close>; so the loop that reads \<open>used_number_of_intervals\<close> raises on its
  first object, and no call with at least one dimension returns.
\<close>

lemma get_distribution_third:
  "get_distribution env dimension samples kwargs = (Inr (d, dep, third, fourth), tr)
   \<Longrightarrow> \<exists>xs. third = PyList xs"
  by (auto simp: get_distribution_def run_defs Let_def used_as_object_def
           split: sum.splits prod.splits if_splits)

lemma apply_async_returns_list:
  "apply_async (get_distribution env dimension samples kwargs) = (Inr res, tr) \<Longrightarrow> returns_list res"
  by (cases "get_distribution env dimension samples kwargs")
     (auto simp: apply_async_def returns_list_def split: sum.splits dest: get_distribution_third)

lemma dispatch_results:
  "dispatch env samples descriptions dims = (Inr rs, tr)
   \<Longrightarrow> length rs = length dims \<and> list_all returns_list rs"
proof (induction dims arbitrary: rs tr)
  case Nil
  then show ?case by (simp add: returnR_def)
next
  case (Cons dimension dims)
  from Cons.prems obtain dd tr0 res tr1 rs' tr2 where
      "apply_async (get_distribution env dimension samples dd) = (Inr res, tr1)"
      "dispatch env samples descriptions dims = (Inr rs', tr2)"
      "rs = res # rs'"
    by (auto simp: bindR_def liftR_def returnR_def split: sum.splits prod.splits)
  with Cons.IH show ?case
    by (auto dest: apply_async_returns_list)
qed

lemma collect_inspection:
  "collect rs (descriptions, dists, deps, inspection) = Inr (descriptions', dists', deps', inspection')
   \<Longrightarrow> list_all returns_list rs \<Longrightarrow> list_all is_list inspection
   \<Longrightarrow> length inspection' = length inspection + length rs \<and> list_all is_list inspection'"
proof (induction rs arbitrary: descriptions dists deps inspection)
  case Nil
  then show ?case by simp
next
  case (Cons res rs)
  from Cons.prems(1) obtain d dep third fourth descriptions1 where
      res: "res = Inr (d, dep, third, fourth)"
  and c: "collect rs (descriptions1, dists @ [d], deps @ [dep], inspection @ [third])
            = Inr (descriptions', dists', deps', inspection')"
    by (cases res) (auto simp: bindE_def split: sum.splits prod.splits)
  from Cons.prems(2) res have "is_list third"
    by (auto simp: returns_list_def is_list_def split: pyobj.splits)
  with Cons.prems(3) have "list_all is_list (inspection @ [third])" by simp
  from Cons.IH [OF c _ this] Cons.prems(2) show ?case by simp
qed

lemma default_used_lists:
  "inspection \<noteq> [] \<Longrightarrow> list_all is_list inspection \<Longrightarrow> default_used inspection = Inl AttributeError"
  by (cases inspection) (auto simp: is_list_def split: pyobj.splits)

proposition constructor_never_returns:
  assumes "samples \<noteq> []"
  shows "\<exists>e. fst (Fit_init env samples descriptions) = Inl e"
proof (cases "dispatch env samples (broadcast_intervals descriptions) [0 ..< length samples]")
  case (Pair r tr)
  show ?thesis
  proof (cases r)
    case (Inl e)
    with Pair show ?thesis by (simp add: Fit_init_def bindR_def)
  next
    case (Inr rs)
    with Pair have len: "length rs = length samples" and ok: "list_all returns_list rs"
      using dispatch_results by fastforce+
    show ?thesis
    proof (cases "collect rs (broadcast_intervals descriptions, [], [], [])")
      case (Inl e)
      with Pair Inr show ?thesis by (simp add: Fit_init_def bindR_def liftR_def)
    next
      case inr: (Inr v)
      obtain d1 d2 d3 insp where v: "v = (d1, d2, d3, insp)" by (cases v)
      from collect_inspection [OF inr [unfolded v] ok] len assms
      have "insp \<noteq> []" "list_all is_list insp" by auto
      then have "default_used insp = Inl AttributeError" by (rule default_used_lists)
      with Pair Inr inr v show ?thesis
        by (simp add: Fit_init_def bindR_def liftR_def)
    qed
  qed
qed

end
